theory Spec2Isabelle
  imports Complex_Main "HOL-Library.AList"
begin

section \<open>SwapsController: data model\<close>

text \<open>
  Values of JavaScript are modelled as follows. A hexadecimal or decimal numeric string
  is the number it denotes; a field that may be \<^verbatim>\<open>undefined\<close> or
  \<^verbatim>\<open>null\<close> is an \<open>option\<close>; a \<^verbatim>\<open>BigNumber\<close> is a rational number
  (its \<^verbatim>\<open>plus\<close>, \<^verbatim>\<open>minus\<close>, \<^verbatim>\<open>times\<close> and \<^verbatim>\<open>gt\<close> are exact; the
  rounding to twenty decimal places that an argument given with base 10 undergoes, and
  the value \<^verbatim>\<open>NaN\<close>, are left out).
  An object used as a dictionary is an association list in the order of
  \<^verbatim>\<open>Object.values\<close>, with distinct keys.
\<close>

datatype error = TypeError | MissingCurrency | NotAnAction | FetchError string

record SwapsTokenObject =
  address :: string
  symbol :: string
  decimals :: nat
  occurances :: "nat option"
  iconUrl :: "string option"

record ApprovalNeeded =
  gas :: "nat option"

record Trade =
  trade_value :: nat

record Quote =
  aggregator :: string
  approvalNeeded :: "ApprovalNeeded option"
  averageGas :: "nat option"
  destinationAmount :: "nat option"
  destinationToken :: string
  destinationTokenInfo :: SwapsTokenObject
  gasEstimate :: "nat option"
  sourceAmount :: nat
  sourceToken :: string
  trade :: Trade

type_synonym SwapsQuotes = "(string \<times> Quote) list"

datatype jsvalue = JNull | JBool bool | JNum int | JStr string | JObj "(string \<times> jsvalue) list"

type_synonym jsobject = "(string \<times> jsvalue) list"

record SwapsState =
  quotes :: SwapsQuotes
  fetchParams :: "jsobject option"
  tokens :: "SwapsTokenObject list option"
  quotesLastFetched :: "nat option"
  errorKey :: "string option"
  topAggId :: "string option"
  swapsFeatureIsLive :: bool

text \<open>
  A \<^verbatim>\<open>Partial<SwapsState>\<close>: every field may be absent; a field that is present
  holds a value of the field's own type (which may itself be \<^verbatim>\<open>null\<close>).
\<close>

record PartialSwapsState =
  p_quotes :: "SwapsQuotes option"
  p_fetchParams :: "jsobject option option"
  p_tokens :: "SwapsTokenObject list option option"
  p_quotesLastFetched :: "nat option option"
  p_errorKey :: "string option option"
  p_topAggId :: "string option option"
  p_swapsFeatureIsLive :: "bool option"

definition no_fields :: PartialSwapsState where
  "no_fields = \<lparr>p_quotes = None, p_fetchParams = None, p_tokens = None,
     p_quotesLastFetched = None, p_errorKey = None, p_topAggId = None,
     p_swapsFeatureIsLive = None\<rparr>"

definition spread :: "SwapsState \<Rightarrow> PartialSwapsState" where
  "spread s = \<lparr>p_quotes = Some (quotes s), p_fetchParams = Some (fetchParams s),
     p_tokens = Some (tokens s), p_quotesLastFetched = Some (quotesLastFetched s),
     p_errorKey = Some (errorKey s), p_topAggId = Some (topAggId s),
     p_swapsFeatureIsLive = Some (swapsFeatureIsLive s)\<rparr>"

text \<open>
  The controller: its state, and the private timer handle. A handle is the number of the
  pending timeout; \<^verbatim>\<open>clearTimeout\<close> cancels the timeout but leaves the field
  \<^verbatim>\<open>this.handle\<close> as it is, so the field and the set of pending timeouts are kept
  apart.
\<close>

record SwapsController =
  state :: SwapsState
  handle :: "nat option"
  pending_timeouts :: "nat list"
  next_handle :: nat

text \<open>
  Modelled from the spec: \<^verbatim>\<open>BaseController.update\<close> is imported from
  \<^verbatim>\<open>../BaseController\<close>, which is not among the sources. It is called with a
  partial state only, and merges the fields that are present into the current state
  (\<^verbatim>\<open>Object.assign({}, this.internalState, state)\<close>).
\<close>

definition update :: "PartialSwapsState \<Rightarrow> SwapsController \<Rightarrow> SwapsController" where
  "update p c = c\<lparr>state :=
     \<lparr>quotes = (case p_quotes p of None \<Rightarrow> quotes (state c) | Some v \<Rightarrow> v),
      fetchParams = (case p_fetchParams p of None \<Rightarrow> fetchParams (state c) | Some v \<Rightarrow> v),
      tokens = (case p_tokens p of None \<Rightarrow> tokens (state c) | Some v \<Rightarrow> v),
      quotesLastFetched =
        (case p_quotesLastFetched p of None \<Rightarrow> quotesLastFetched (state c) | Some v \<Rightarrow> v),
      errorKey = (case p_errorKey p of None \<Rightarrow> errorKey (state c) | Some v \<Rightarrow> v),
      topAggId = (case p_topAggId p of None \<Rightarrow> topAggId (state c) | Some v \<Rightarrow> v),
      swapsFeatureIsLive =
        (case p_swapsFeatureIsLive p of None \<Rightarrow> swapsFeatureIsLive (state c) | Some v \<Rightarrow> v)\<rparr>\<rparr>"

text \<open>\<^verbatim>\<open>this.handle && clearTimeout(this.handle)\<close>\<close>

definition clearHandle :: "SwapsController \<Rightarrow> SwapsController" where
  "clearHandle c =
     (case handle c of
        None \<Rightarrow> c
      | Some h \<Rightarrow> c\<lparr>pending_timeouts := removeAll h (pending_timeouts c)\<rparr>)"

text \<open>\<^verbatim>\<open>this.handle = setTimeout(...)\<close>\<close>

definition setHandle :: "SwapsController \<Rightarrow> SwapsController" where
  "setHandle c =
     c\<lparr>handle := Some (next_handle c),
       pending_timeouts := next_handle c # pending_timeouts c,
       next_handle := Suc (next_handle c)\<rparr>"

section \<open>SwapsController: setters and quote fetching\<close>

definition setSwapsTokens :: "SwapsTokenObject list option \<Rightarrow> SwapsController \<Rightarrow> SwapsController" where
  "setSwapsTokens newTokens c = update (no_fields\<lparr>p_tokens := Some newTokens\<rparr>) c"

definition setSwapsErrorKey :: "string option \<Rightarrow> SwapsController \<Rightarrow> SwapsController" where
  "setSwapsErrorKey newErrorKey c = update (no_fields\<lparr>p_errorKey := Some newErrorKey\<rparr>) c"

definition setQuotesLastFetched :: "SwapsQuotes \<Rightarrow> SwapsController \<Rightarrow> SwapsController" where
  "setQuotesLastFetched quotesLastFetched' c =
     update (no_fields\<lparr>p_quotes := Some quotesLastFetched'\<rparr>) c"

definition setSwapsLiveness :: "bool \<Rightarrow> SwapsController \<Rightarrow> SwapsController" where
  "setSwapsLiveness isLive c = update (no_fields\<lparr>p_swapsFeatureIsLive := Some isLive\<rparr>) c"

text \<open>
  \<^verbatim>\<open>fetchAndSetQuotes\<close> returns the value the promise resolves to (\<open>Some JNull\<close> for
  \<^verbatim>\<open>null\<close>, \<open>None\<close> for \<^verbatim>\<open>undefined\<close>) and the controller after the call.
\<close>

definition fetchAndSetQuotes ::
  "jsobject option \<Rightarrow> jsobject \<Rightarrow> bool \<Rightarrow> SwapsController \<Rightarrow> jsvalue option \<times> SwapsController" where
  "fetchAndSetQuotes fetchParams' fetchParamsMetaData isPolledRequest c =
     (case fetchParams' of
        None \<Rightarrow> (Some JNull, c)
      | Some fp \<Rightarrow>
          (let c1 = clearHandle c;
               c2 = (if \<not> isPolledRequest then setSwapsErrorKey None c1 else c1)
           in (None,
               update (no_fields\<lparr>p_fetchParams :=
                 Some (Some (AList.update ''metaData'' (JObj fetchParamsMetaData) fp))\<rparr>) c2)))"

text \<open>
  \<^verbatim>\<open>pollForNewQuotes\<close> up to the point where it returns, and the callback of the timeout
  it has set.
\<close>

definition pollForNewQuotes :: "SwapsController \<Rightarrow> SwapsController" where
  "pollForNewQuotes c = setHandle (snd (fetchAndSetQuotes None [] True (clearHandle c)))"

definition pollForNewQuotes_timeout :: "SwapsController \<Rightarrow> SwapsController" where
  "pollForNewQuotes_timeout c = snd (fetchAndSetQuotes None [] True c)"

definition stopPollingForQuotes :: "SwapsController \<Rightarrow> SwapsController" where
  "stopPollingForQuotes c = clearHandle c"

definition resetPostFetchState :: "SwapsController \<Rightarrow> SwapsController" where
  "resetPostFetchState c =
     (let resetTokens = tokens (state c);
          resetFetchParams = fetchParams (state c);
          resetSwapsFeatureIsLive = swapsFeatureIsLive (state c)
      in clearHandle
           (update ((spread (state c))
              \<lparr>p_tokens := Some resetTokens,
               p_fetchParams := Some resetFetchParams,
               p_swapsFeatureIsLive := Some resetSwapsFeatureIsLive\<rparr>) c))"

section \<open>SwapsController: best quote and savings\<close>

definition ETH_SWAPS_TOKEN_ADDRESS :: string where
  "ETH_SWAPS_TOKEN_ADDRESS = ''0x0000000000000000000000000000000000000000''"

definition MAX_GAS_LIMIT :: nat where
  "MAX_GAS_LIMIT = 2500000"

text \<open>
  What the controller takes from outside this file: the exchange rates held by the
  \<^verbatim>\<open>TokenRatesController\<close> (\<open>None\<close> where the object has no such key), the outcome
  of the network query \<^verbatim>\<open>gasPrice\<close>, and the two imported helpers
  \<^verbatim>\<open>calcTokenAmount\<close> (of \<^verbatim>\<open>../util\<close>) and \<^verbatim>\<open>getMedian\<close> (of
  \<^verbatim>\<open>./SwapsUtil\<close>), whose code is not among the sources. The last field is what
  the library makes of \<^verbatim>\<open>new BigNumber(v, 16)\<close> when \<open>v\<close> is not a string but a
  \<^verbatim>\<open>BigNumber\<close> already, as \<^verbatim>\<open>gasTotalInWeiHex\<close> is.
\<close>

record SwapsEnv =
  contractExchangeRates :: "string \<Rightarrow> rat option"
  getGasPrice :: "error + nat"
  calcTokenAmount :: "nat \<Rightarrow> nat \<Rightarrow> rat"
  getMedian :: "rat list \<Rightarrow> rat"
  bigNumberBase16 :: "nat \<Rightarrow> nat"

record SwapsSavings =
  total :: rat
  performance :: rat
  fee :: rat

record SwapsBestQuote =
  best_topAggId :: string
  isBest :: bool
  ethTradeValueOfBestQuote :: rat
  ethFeeForBestQuote :: rat

record SwapValues =
  allEthTradeValues :: "rat list"
  allEthFees :: "rat list"

text \<open>
  The body of the \<^verbatim>\<open>forEach\<close> of \<^verbatim>\<open>getBestQuoteAndEthValues\<close>, value by value.
  \<^verbatim>\<open>gasEstimate\<close> is a hexadecimal string (true unless absent or empty),
  \<^verbatim>\<open>averageGas\<close> a number (false when absent or zero).
\<close>

definition tradeGasLimitForCalculation :: "Quote \<Rightarrow> nat" where
  "tradeGasLimitForCalculation quote =
     (case gasEstimate quote of
        Some g \<Rightarrow> g
      | None \<Rightarrow>
          (case averageGas quote of
             None \<Rightarrow> MAX_GAS_LIMIT
           | Some a \<Rightarrow> if a = 0 then MAX_GAS_LIMIT else a))"

definition totalGasLimitForCalculation :: "Quote \<Rightarrow> nat" where
  "totalGasLimitForCalculation quote =
     tradeGasLimitForCalculation quote
     + (case approvalNeeded quote of
          None \<Rightarrow> 0
        | Some a \<Rightarrow> (case gas a of None \<Rightarrow> 0 | Some g \<Rightarrow> g))"

definition gasTotalInWeiHex :: "nat \<Rightarrow> Quote \<Rightarrow> nat" where
  "gasTotalInWeiHex usedGasPrice quote = totalGasLimitForCalculation quote * usedGasPrice"

definition totalWeiCost :: "SwapsEnv \<Rightarrow> nat \<Rightarrow> Quote \<Rightarrow> nat" where
  "totalWeiCost env usedGasPrice quote =
     bigNumberBase16 env (gasTotalInWeiHex usedGasPrice quote) + trade_value (trade quote)"

definition ethFee :: "SwapsEnv \<Rightarrow> nat \<Rightarrow> Quote \<Rightarrow> rat" where
  "ethFee env usedGasPrice quote =
     (if sourceToken quote = ETH_SWAPS_TOKEN_ADDRESS
      then of_nat (totalWeiCost env usedGasPrice quote) - of_nat (sourceAmount quote)
      else of_nat (totalWeiCost env usedGasPrice quote))"

definition ethValueOfTrade :: "SwapsEnv \<Rightarrow> nat \<Rightarrow> Quote \<Rightarrow> rat" where
  "ethValueOfTrade env usedGasPrice quote =
     (let amount = (case destinationAmount quote of None \<Rightarrow> 0 | Some a \<Rightarrow> a);
          tokenConversionRate = contractExchangeRates env (destinationToken quote)
      in if destinationToken quote = ETH_SWAPS_TOKEN_ADDRESS
         then calcTokenAmount env amount 18 - of_nat (totalWeiCost env usedGasPrice quote)
         else (case tokenConversionRate of
                 None \<Rightarrow>
                   1 * calcTokenAmount env amount (decimals (destinationTokenInfo quote)) - 0
               | Some r \<Rightarrow>
                   if r = 0
                   then 1 * calcTokenAmount env amount (decimals (destinationTokenInfo quote)) - 0
                   else r * calcTokenAmount env amount (decimals (destinationTokenInfo quote))
                        - of_nat (totalWeiCost env usedGasPrice quote)))"

text \<open>The variables the loop updates.\<close>

record BestSoFar =
  cur_topAggId :: string
  cur_ethTradeValueOfBestQuote :: rat
  cur_ethFeeForBestQuote :: rat
  cur_allEthTradeValues :: "rat list"
  cur_allEthFees :: "rat list"

definition bestInit :: BestSoFar where
  "bestInit = \<lparr>cur_topAggId = [], cur_ethTradeValueOfBestQuote = 0,
     cur_ethFeeForBestQuote = 0, cur_allEthTradeValues = [], cur_allEthFees = []\<rparr>"

definition forEachBody :: "SwapsEnv \<Rightarrow> nat \<Rightarrow> BestSoFar \<Rightarrow> Quote \<Rightarrow> BestSoFar" where
  "forEachBody env usedGasPrice b quote =
     (let v = ethValueOfTrade env usedGasPrice quote;
          f = ethFee env usedGasPrice quote;
          b1 = b\<lparr>cur_allEthTradeValues := cur_allEthTradeValues b @ [v],
                 cur_allEthFees := cur_allEthFees b @ [f]\<rparr>
      in if v > cur_ethTradeValueOfBestQuote b
         then b1\<lparr>cur_topAggId := aggregator quote,
                 cur_ethTradeValueOfBestQuote := v,
                 cur_ethFeeForBestQuote := f\<rparr>
         else b1)"

fun forEachQuote :: "SwapsEnv \<Rightarrow> nat \<Rightarrow> BestSoFar \<Rightarrow> Quote list \<Rightarrow> BestSoFar" where
  "forEachQuote env usedGasPrice b [] = b"
| "forEachQuote env usedGasPrice b (quote # rest) =
     forEachQuote env usedGasPrice (forEachBody env usedGasPrice b quote) rest"

text \<open>
  \<^verbatim>\<open>getBestQuoteAndEthValues\<close>. The custom gas price is a hexadecimal string
  (\<open>None\<close> when absent or empty); without it the network is asked, and a failed query
  rejects the promise. After the loop \<^verbatim>\<open>quotes[topAggId].destinationToken\<close> is
  read: when the object has no key \<^verbatim>\<open>topAggId\<close> the read throws a
  \<^verbatim>\<open>TypeError\<close>.
\<close>

definition getBestQuoteAndEthValues ::
  "SwapsEnv \<Rightarrow> SwapsQuotes \<Rightarrow> nat option \<Rightarrow> error + (SwapsBestQuote \<times> SwapValues)" where
  "getBestQuoteAndEthValues env quotes' customGasPrice =
     (case (case customGasPrice of Some p \<Rightarrow> Inr p | None \<Rightarrow> getGasPrice env) of
        Inl e \<Rightarrow> Inl e
      | Inr usedGasPrice \<Rightarrow>
          (let b = forEachQuote env usedGasPrice bestInit (map snd quotes')
           in case map_of quotes' (cur_topAggId b) of
                None \<Rightarrow> Inl TypeError
              | Some topQuote \<Rightarrow>
                  Inr (\<lparr>best_topAggId = cur_topAggId b,
                        isBest = (destinationToken topQuote = ETH_SWAPS_TOKEN_ADDRESS
                          \<or> (case contractExchangeRates env (destinationToken topQuote) of
                                None \<Rightarrow> False
                              | Some r \<Rightarrow> r \<noteq> 0)),
                        ethTradeValueOfBestQuote = cur_ethTradeValueOfBestQuote b,
                        ethFeeForBestQuote = cur_ethFeeForBestQuote b\<rparr>,
                       \<lparr>allEthTradeValues = cur_allEthTradeValues b,
                        allEthFees = cur_allEthFees b\<rparr>)))"

definition calculateSavings :: "SwapsEnv \<Rightarrow> SwapsBestQuote \<Rightarrow> SwapValues \<Rightarrow> SwapsSavings" where
  "calculateSavings env quote values =
     (let performance' = ethTradeValueOfBestQuote quote - getMedian env (allEthTradeValues values);
          fee' = getMedian env (allEthFees values) - ethFeeForBestQuote quote
      in \<lparr>total = performance' + fee', performance = performance', fee = fee'\<rparr>)"

text \<open>
  \<^verbatim>\<open>findBestQuoteAndCalulateSavings\<close>: \<open>Inr None\<close> is the result \<^verbatim>\<open>null\<close>.
\<close>

definition findBestQuoteAndCalulateSavings ::
  "SwapsEnv \<Rightarrow> SwapsQuotes \<Rightarrow> nat option
     \<Rightarrow> error + (SwapsBestQuote \<times> SwapsSavings) option" where
  "findBestQuoteAndCalulateSavings env quotes' customGasPrice =
     (if length quotes' = 0 then Inr None
      else case getBestQuoteAndEthValues env quotes' customGasPrice of
             Inl e \<Rightarrow> Inl e
           | Inr (bestQuote, values) \<Rightarrow>
               Inr (Some (bestQuote, calculateSavings env bestQuote values)))"

section \<open>CurrencyRateController: state and reducers\<close>

text \<open>
  Times are the milliseconds \<^verbatim>\<open>Date.now()\<close> returns; a conversion rate is a rational
  number. A currency given to or held by the controller may be absent
  (\<^verbatim>\<open>undefined\<close>, \<^verbatim>\<open>null\<close>); it counts as true when it is present and not the
  empty string.
\<close>

definition POLLING_INTERVAL :: nat where
  "POLLING_INTERVAL = 180000"

record CurrencyRateState =
  conversionDate :: nat
  conversionRate :: rat
  currentCurrency :: string
  nativeCurrency :: string
  pendingCurrentCurrency :: "string option"
  pendingNativeCurrency :: "string option"
  pollingStartTime :: "nat option"
  updateStartTime :: "nat option"

definition initialState :: CurrencyRateState where
  "initialState = \<lparr>conversionDate = 0, conversionRate = 0, currentCurrency = ''usd'',
     nativeCurrency = ''ETH'', pendingCurrentCurrency = None, pendingNativeCurrency = None,
     pollingStartTime = None, updateStartTime = None\<rparr>"

fun truthy :: "string option \<Rightarrow> bool" where
  "truthy None = False"
| "truthy (Some s) = (s \<noteq> [])"

definition pollingStarted :: "nat \<Rightarrow> CurrencyRateState \<Rightarrow> CurrencyRateState" where
  "pollingStarted payload s = s\<lparr>pollingStartTime := Some payload\<rparr>"

definition pollingStopped :: "CurrencyRateState \<Rightarrow> CurrencyRateState" where
  "pollingStopped s = s\<lparr>pollingStartTime := None\<rparr>"

text \<open>The reducers that read \<^verbatim>\<open>Date.now()\<close> take its value as their first argument.\<close>

definition pollFinished :: "nat \<Rightarrow> rat \<Rightarrow> CurrencyRateState \<Rightarrow> CurrencyRateState" where
  "pollFinished dateNow payload s = s\<lparr>conversionDate := dateNow, conversionRate := payload\<rparr>"

definition updateCurrencyStarted ::
  "string option \<Rightarrow> string option \<Rightarrow> nat \<Rightarrow> CurrencyRateState \<Rightarrow> error + CurrencyRateState" where
  "updateCurrencyStarted currentCurrency' nativeCurrency' updateStartTime' s =
     (if \<not> truthy currentCurrency' \<and> \<not> truthy nativeCurrency' then Inl MissingCurrency
      else
        (let s1 = (if truthy currentCurrency'
                   then s\<lparr>pendingCurrentCurrency := currentCurrency'\<rparr> else s);
             s2 = (if truthy nativeCurrency'
                   then s1\<lparr>pendingNativeCurrency := nativeCurrency'\<rparr> else s1)
         in Inr (s2\<lparr>updateStartTime := Some updateStartTime'\<rparr>)))"

definition updateCurrencyFailed :: "CurrencyRateState \<Rightarrow> CurrencyRateState" where
  "updateCurrencyFailed s = s\<lparr>pendingCurrentCurrency := None, pendingNativeCurrency := None\<rparr>"

text \<open>
  Both conditions of \<^verbatim>\<open>updateCurrencyFinished\<close> test
  \<^verbatim>\<open>state.pendingCurrentCurrency\<close>, the second one after the first branch may have
  set it to \<^verbatim>\<open>null\<close>.
\<close>

definition updateCurrencyFinished :: "nat \<Rightarrow> rat \<Rightarrow> CurrencyRateState \<Rightarrow> CurrencyRateState" where
  "updateCurrencyFinished dateNow payload s =
     (let s1 = s\<lparr>conversionDate := dateNow, conversionRate := payload\<rparr>;
          s2 = (case pendingCurrentCurrency s1 of
                  None \<Rightarrow> s1
                | Some c \<Rightarrow>
                    if c \<noteq> []
                    then s1\<lparr>currentCurrency := c, pendingCurrentCurrency := None\<rparr>
                    else s1)
      in case pendingCurrentCurrency s2 of
           None \<Rightarrow> s2
         | Some c \<Rightarrow>
             if c \<noteq> []
             then s2\<lparr>nativeCurrency := c, pendingNativeCurrency := None\<rparr>
             else s2)"

text \<open>Selectors.\<close>

definition getPendingOrActiveCurrentCurrency :: "CurrencyRateState \<Rightarrow> string" where
  "getPendingOrActiveCurrentCurrency s =
     (case pendingCurrentCurrency s of
        None \<Rightarrow> currentCurrency s
      | Some c \<Rightarrow> if c \<noteq> [] then c else currentCurrency s)"

definition getPendingOrActiveNativeCurrency :: "CurrencyRateState \<Rightarrow> string" where
  "getPendingOrActiveNativeCurrency s =
     (case pendingNativeCurrency s of
        None \<Rightarrow> nativeCurrency s
      | Some c \<Rightarrow> if c \<noteq> [] then c else nativeCurrency s)"

section \<open>CurrencyRateController: the thunks and their interleaving\<close>

text \<open>
  The asynchronous functions are cut at their \<^verbatim>\<open>await\<close>: one function runs the code
  up to the call of \<^verbatim>\<open>fetchExchangeRate\<close>, another the code after it, given what the
  fetch has produced. Between the two, anything else may run. What is alive between
  them is kept in the system state: the store, the clock, the fetches in flight (each
  with the start time its continuation holds and the currencies it asked for) and the
  intervals set (each with the \<^verbatim>\<open>pollingStartTime\<close> its callback holds and the time it
  is due next).

  \<open>strictDispatch\<close> tells what the \<^verbatim>\<open>dispatch\<close> given to the thunks does with a value
  that is not an action: it throws (as the dispatch of a Redux store does) or ignores it.
\<close>

datatype fetch = PollFetch nat string string | UpdateFetch nat string string

record sys =
  store :: CurrencyRateState
  now :: nat
  fetches :: "fetch list"
  intervals :: "(nat \<times> nat) list"
  strictDispatch :: bool

definition boot :: "bool \<Rightarrow> sys" where
  "boot strict = \<lparr>store = initialState, now = 0, fetches = [], intervals = [],
     strictDispatch = strict\<rparr>"

definition poll_begin :: "sys \<Rightarrow> sys" where
  "poll_begin y =
     (let currentCurrency' = currentCurrency (store y);
          nativeCurrency' = nativeCurrency (store y);
          fetchStartTime = now y
      in y\<lparr>fetches := fetches y @ [PollFetch fetchStartTime currentCurrency' nativeCurrency']\<rparr>)"

definition poll_resume :: "nat \<Rightarrow> rat \<Rightarrow> sys \<Rightarrow> sys" where
  "poll_resume fetchStartTime conversionRate' y =
     (case pollingStartTime (store y) of
        None \<Rightarrow> y
      | Some pollingStartTime' \<Rightarrow>
          if pollingStartTime' > fetchStartTime then y
          else y\<lparr>store := pollFinished (now y) conversionRate' (store y)\<rparr>)"

definition start :: "sys \<Rightarrow> sys" where
  "start y =
     (let pollingStartTime' = now y;
          y1 = y\<lparr>store := pollingStarted pollingStartTime' (store y)\<rparr>;
          y2 = poll_begin y1
      in y2\<lparr>intervals := intervals y2 @ [(pollingStartTime', now y2 + POLLING_INTERVAL)]\<rparr>)"

text \<open>
  The callback of the \<open>i\<close>-th interval, run once it is due: it clears its own interval
  when the \<^verbatim>\<open>pollingStartTime\<close> of the store is no longer the one it holds.
\<close>

definition interval_callback :: "nat \<Rightarrow> sys \<Rightarrow> sys" where
  "interval_callback i y =
     (if i < length (intervals y) \<and> snd (intervals y ! i) \<le> now y
      then
        (let pollingStartTime' = fst (intervals y ! i);
             updatedPollingStartTime = pollingStartTime (store y)
         in if Some pollingStartTime' \<noteq> updatedPollingStartTime
            then y\<lparr>intervals := take i (intervals y) @ drop (Suc i) (intervals y)\<rparr>
            else poll_begin
                   (y\<lparr>intervals := (intervals y)
                        [i := (pollingStartTime', snd (intervals y ! i) + POLLING_INTERVAL)]\<rparr>))
      else y)"

text \<open>
  \<^verbatim>\<open>stop\<close> calls the action creator \<^verbatim>\<open>pollingStopped\<close> and drops the action it
  gets: nothing is dispatched, and \<^verbatim>\<open>stop\<close> returns \<^verbatim>\<open>undefined\<close>.
\<close>

definition stop :: "sys \<Rightarrow> sys" where
  "stop y = y"

text \<open>\<^verbatim>\<open>dispatch(stop())\<close>: the value dispatched is \<^verbatim>\<open>undefined\<close>.\<close>

definition dispatch_stop :: "sys \<Rightarrow> error + sys" where
  "dispatch_stop y = (if strictDispatch (stop y) then Inl NotAnAction else Inr (stop y))"

definition updateCurrency_begin :: "string option \<Rightarrow> string option \<Rightarrow> sys \<Rightarrow> error + sys" where
  "updateCurrency_begin currentCurrency' nativeCurrency' y =
     (if \<not> truthy currentCurrency' \<and> \<not> truthy nativeCurrency' then Inl MissingCurrency
      else
        (case dispatch_stop y of
           Inl e \<Rightarrow> Inl e
         | Inr y1 \<Rightarrow>
             (let updateStartTime' = now y1
              in case updateCurrencyStarted currentCurrency' nativeCurrency' updateStartTime'
                        (store y1) of
                   Inl e \<Rightarrow> Inl e
                 | Inr s \<Rightarrow>
                     Inr (y1\<lparr>store := s,
                              fetches := fetches y1 @
                                [UpdateFetch updateStartTime'
                                   (getPendingOrActiveCurrentCurrency s)
                                   (getPendingOrActiveNativeCurrency s)]\<rparr>))))"

text \<open>
  The rest of \<^verbatim>\<open>updateCurrency\<close>, given what the fetch produced (\<open>Inl\<close> when it
  threw). The first component is the error the thunk throws to its caller, if any.
  \<^verbatim>\<open>updateReplaced\<close> is set only after a fetch that did not throw.
\<close>

definition updateCurrency_resume :: "nat \<Rightarrow> error + rat \<Rightarrow> sys \<Rightarrow> error option \<times> sys" where
  "updateCurrency_resume updateStartTime' fetched y =
     (case fetched of
        Inr conversionRate' \<Rightarrow>
          (let updatedUpdateStartTime = updateStartTime (store y);
               updateReplaced = (Some updateStartTime' \<noteq> updatedUpdateStartTime);
               y1 = (if updateReplaced then y
                     else y\<lparr>store := updateCurrencyFinished (now y) conversionRate' (store y)\<rparr>)
           in (None, if \<not> updateReplaced then start y1 else y1))
      | Inl e \<Rightarrow>
          (let updateReplaced = False;
               y1 = (if \<not> updateReplaced then y\<lparr>store := updateCurrencyFailed (store y)\<rparr> else y)
           in (Some e, if \<not> updateReplaced then start y1 else y1)))"

text \<open>
  What can happen, one event at a time. A fetch in flight is named by its position in
  \<open>fetches\<close>, an interval by its position in \<open>intervals\<close>. An event that cannot happen
  (no such fetch, interval not due) changes nothing. A poll whose fetch throws ends
  there: \<^verbatim>\<open>poll\<close> has no handler and nothing awaits it.
\<close>

datatype event =
    Tick nat
  | CallStart
  | CallStop
  | CallUpdateCurrency "string option" "string option"
  | IntervalDue nat
  | FetchResolved nat rat
  | FetchRejected nat string

definition take_fetch :: "nat \<Rightarrow> sys \<Rightarrow> sys" where
  "take_fetch i y = y\<lparr>fetches := take i (fetches y) @ drop (Suc i) (fetches y)\<rparr>"

fun step :: "event \<Rightarrow> sys \<Rightarrow> sys" where
  "step (Tick d) y = y\<lparr>now := now y + d\<rparr>"
| "step CallStart y = start y"
| "step CallStop y = stop y"
| "step (CallUpdateCurrency c n) y =
     (case updateCurrency_begin c n y of Inl e \<Rightarrow> y | Inr y' \<Rightarrow> y')"
| "step (IntervalDue i) y = interval_callback i y"
| "step (FetchResolved i r) y =
     (if i < length (fetches y)
      then (case fetches y ! i of
              PollFetch t c n \<Rightarrow> poll_resume t r (take_fetch i y)
            | UpdateFetch t c n \<Rightarrow> snd (updateCurrency_resume t (Inr r) (take_fetch i y)))
      else y)"
| "step (FetchRejected i m) y =
     (if i < length (fetches y)
      then (case fetches y ! i of
              PollFetch t c n \<Rightarrow> take_fetch i y
            | UpdateFetch t c n \<Rightarrow>
                snd (updateCurrency_resume t (Inl (FetchError m)) (take_fetch i y)))
      else y)"

fun run :: "event list \<Rightarrow> sys \<Rightarrow> sys" where
  "run [] y = y"
| "run (e # es) y = run es (step e y)"

text \<open>
  Two properties of a system state, relative to a time \<open>t\<close> read from the clock earlier:
  polling has been started anew after \<open>t\<close> (or is marked as stopped), and a currency
  update has been started after \<open>t\<close>.
\<close>

definition restartedAfter :: "nat \<Rightarrow> sys \<Rightarrow> bool" where
  "restartedAfter t y =
     (t < now y \<and> (case pollingStartTime (store y) of None \<Rightarrow> True | Some p \<Rightarrow> t < p))"

definition replacedAfter :: "nat \<Rightarrow> sys \<Rightarrow> bool" where
  "replacedAfter u y =
     (u < now y \<and> (case updateStartTime (store y) of None \<Rightarrow> False | Some v \<Rightarrow> u < v))"

section \<open>Sample data\<close>

text \<open>
  A quote that swaps 400 DAI for 1 ETH, with a gas estimate of 21000 at a gas price of
  1 gwei, and an environment without token rates in which \<^verbatim>\<open>calcTokenAmount\<close>
  divides by the power of ten and the library reads a \<^verbatim>\<open>BigNumber\<close> as below.
\<close>

definition ethToken :: SwapsTokenObject where
  "ethToken = \<lparr>address = ETH_SWAPS_TOKEN_ADDRESS, symbol = ''ETH'',
     decimals = 18, occurances = None, iconUrl = None\<rparr>"

definition daiToEthQuote :: Quote where
  "daiToEthQuote = \<lparr>aggregator = ''airswap'', approvalNeeded = None, averageGas = Some 120000,
     destinationAmount = Some 1000000000000000000,
     destinationToken = ETH_SWAPS_TOKEN_ADDRESS, destinationTokenInfo = ethToken,
     gasEstimate = Some 21000, sourceAmount = 400000000000000000000,
     sourceToken = ''0x6b175474e89094c44da98b954eedeac495271d0f'',
     trade = \<lparr>trade_value = 0\<rparr>\<rparr>"

text \<open>
  The library turns a \<^verbatim>\<open>BigNumber\<close> given with a base other than 10 into its
  decimal string and reads the string in that base: the decimal digits of the number,
  taken as hexadecimal digits.
\<close>

fun hexOfDecimalDigits :: "nat \<Rightarrow> nat" where
  "hexOfDecimalDigits n =
     (if n < 10 then n else n mod 10 + 16 * hexOfDecimalDigits (n div 10))"

declare hexOfDecimalDigits.simps [simp del]

definition plainEnv :: "(rat list \<Rightarrow> rat) \<Rightarrow> SwapsEnv" where
  "plainEnv median = \<lparr>contractExchangeRates = (\<lambda>a. None), getGasPrice = Inr 1000000000,
     calcTokenAmount = (\<lambda>v d. of_nat v / 10 ^ d), getMedian = median,
     bigNumberBase16 = hexOfDecimalDigits\<rparr>"

text \<open>The store after \<^verbatim>\<open>updateCurrency({nativeCurrency: 'BTC'})\<close> has started at time 5.\<close>

definition btcPending :: CurrencyRateState where
  "btcPending = initialState\<lparr>pendingNativeCurrency := Some ''BTC'', updateStartTime := Some 5\<rparr>"

text \<open>One polling session in which the first fetch is still in flight when the interval fires.\<close>

definition overlapping :: "event list" where
  "overlapping = [CallStart, Tick 180000, IntervalDue 0]"

text \<open>An update to EUR that started at time 0, five ticks later; then an update to GBP.\<close>

definition eurUpdating :: sys where
  "eurUpdating = run [CallUpdateCurrency (Some ''eur'') None, Tick 5] (boot False)"

definition gbpUpdating :: sys where
  "gbpUpdating = step (CallUpdateCurrency (Some ''gbp'') None) eurUpdating"


section \<open>SwapsController: frame properties\<close>

lemma state_clearHandle: "state (clearHandle c) = state c"
  by (simp add: clearHandle_def split: option.split)

lemma state_setHandle: "state (setHandle c) = state c"
  by (simp add: setHandle_def)

text \<open>
  C8. \<^verbatim>\<open>resetPostFetchState\<close> leaves every field of the state as it was: the state it
  writes is the current state spread, with three fields set to their own current values.
\<close>

theorem resetPostFetchState_state_unchanged:
  "state (resetPostFetchState c) = state c"
  by (simp add: resetPostFetchState_def state_clearHandle update_def spread_def)

text \<open>
  C9. \<^verbatim>\<open>setQuotesLastFetched\<close> stores its argument in the field \<^verbatim>\<open>quotes\<close>, and
  every other field of the state, \<^verbatim>\<open>quotesLastFetched\<close> among them, keeps its value.
\<close>

theorem setQuotesLastFetched_sets_quotes_only:
  "state (setQuotesLastFetched q c) = (state c)\<lparr>quotes := q\<rparr>"
  by (simp add: setQuotesLastFetched_def update_def no_fields_def)

text \<open>
  C10. \<^verbatim>\<open>fetchAndSetQuotes\<close> called with \<^verbatim>\<open>null\<close> for the fetch parameters
  returns \<^verbatim>\<open>null\<close> and leaves the controller as it was; \<^verbatim>\<open>pollForNewQuotes\<close>,
  which passes \<^verbatim>\<open>null\<close> both at once and from its timeout, leaves the state as it was.
\<close>

theorem fetchAndSetQuotes_null_params:
  "fetchAndSetQuotes None md polled c = (Some JNull, c)
   \<and> state (pollForNewQuotes c) = state c
   \<and> state (pollForNewQuotes_timeout (pollForNewQuotes c)) = state c"
  by (simp add: fetchAndSetQuotes_def pollForNewQuotes_def pollForNewQuotes_timeout_def
      state_clearHandle state_setHandle)

section \<open>SwapsController: the best quote\<close>

lemma forEachQuote_none_better:
  assumes "\<forall>q \<in> set qs. ethValueOfTrade env p q \<le> cur_ethTradeValueOfBestQuote b"
  shows "cur_topAggId (forEachQuote env p b qs) = cur_topAggId b
    \<and> cur_ethTradeValueOfBestQuote (forEachQuote env p b qs) = cur_ethTradeValueOfBestQuote b"
  using assms
  by (induction qs arbitrary: b) (auto simp add: forEachBody_def Let_def)

lemma forEachQuote_upper:
  "cur_ethTradeValueOfBestQuote b \<le> cur_ethTradeValueOfBestQuote (forEachQuote env p b qs)
   \<and> (\<forall>q \<in> set qs.
        ethValueOfTrade env p q \<le> cur_ethTradeValueOfBestQuote (forEachQuote env p b qs))"
proof (induction qs arbitrary: b)
  case Nil
  show ?case by simp
next
  case (Cons q qs)
  have "cur_ethTradeValueOfBestQuote b \<le> cur_ethTradeValueOfBestQuote (forEachBody env p b q)"
    and "ethValueOfTrade env p q \<le> cur_ethTradeValueOfBestQuote (forEachBody env p b q)"
    by (simp_all add: forEachBody_def Let_def)
  with Cons.IH [of "forEachBody env p b q"] show ?case
    by auto
qed

lemma forEachQuote_some_better:
  assumes "\<exists>q \<in> set qs. cur_ethTradeValueOfBestQuote b < ethValueOfTrade env p q"
  shows "\<exists>q \<in> set qs. cur_topAggId (forEachQuote env p b qs) = aggregator q
    \<and> cur_ethTradeValueOfBestQuote (forEachQuote env p b qs) = ethValueOfTrade env p q"
  using assms
proof (induction qs arbitrary: b)
  case Nil
  then show ?case by simp
next
  case (Cons q qs)
  let ?b = "forEachBody env p b q"
  show ?case
  proof (cases "\<exists>q' \<in> set qs. cur_ethTradeValueOfBestQuote ?b < ethValueOfTrade env p q'")
    case True
    from Cons.IH [OF True] show ?thesis by auto
  next
    case False
    then have rest: "\<forall>q' \<in> set qs. ethValueOfTrade env p q' \<le> cur_ethTradeValueOfBestQuote ?b"
      by (auto simp add: not_less)
    have better: "cur_ethTradeValueOfBestQuote b < ethValueOfTrade env p q"
    proof (rule ccontr)
      assume worse: "\<not> cur_ethTradeValueOfBestQuote b < ethValueOfTrade env p q"
      then have "cur_ethTradeValueOfBestQuote ?b = cur_ethTradeValueOfBestQuote b"
        by (simp add: forEachBody_def Let_def)
      with rest worse Cons.prems show False
        by (auto simp add: not_less)
    qed
    then have "cur_topAggId ?b = aggregator q"
      and "cur_ethTradeValueOfBestQuote ?b = ethValueOfTrade env p q"
      by (simp_all add: forEachBody_def Let_def)
    with forEachQuote_none_better [OF rest] show ?thesis by simp
  qed
qed

text \<open>
  Where some quote has a positive value and every quote is stored under its own
  aggregator id, the loop does find the maximum: the id returned is a key of the map,
  and no quote of the map has a greater value than the quote stored under it.
\<close>

lemma getBestQuoteAndEthValues_positive:
  assumes pos: "\<exists>q \<in> set (map snd qs). 0 < ethValueOfTrade env p q"
    and keys: "\<forall>(k, q) \<in> set qs. aggregator q = k"
    and dist: "distinct (map fst qs)"
  shows "\<exists>bestQuote values q.
      getBestQuoteAndEthValues env qs (Some p) = Inr (bestQuote, values)
    \<and> map_of qs (best_topAggId bestQuote) = Some q
    \<and> ethTradeValueOfBestQuote bestQuote = ethValueOfTrade env p q
    \<and> (\<forall>q' \<in> set (map snd qs). ethValueOfTrade env p q' \<le> ethValueOfTrade env p q)"
proof -
  let ?b = "forEachQuote env p bestInit (map snd qs)"
  from pos have "\<exists>q \<in> set (map snd qs).
      cur_ethTradeValueOfBestQuote bestInit < ethValueOfTrade env p q"
    by (simp add: bestInit_def)
  from forEachQuote_some_better [OF this]
  obtain q where q: "q \<in> set (map snd qs)" "cur_topAggId ?b = aggregator q"
    "cur_ethTradeValueOfBestQuote ?b = ethValueOfTrade env p q"
    by blast
  from q(1) obtain k where "(k, q) \<in> set qs"
    by auto
  with keys have "(aggregator q, q) \<in> set qs"
    by auto
  with dist have found: "map_of qs (cur_topAggId ?b) = Some q"
    by (simp add: q(2))
  from forEachQuote_upper [of bestInit env p "map snd qs"] q(3)
  have "\<forall>q' \<in> set (map snd qs). ethValueOfTrade env p q' \<le> ethValueOfTrade env p q"
    by simp
  with found q(3) show ?thesis
    by (simp add: getBestQuoteAndEthValues_def Let_def del: forEachQuote.simps)
qed

text \<open>
  Where no quote has a positive value, the loop never leaves its initial
  \<^verbatim>\<open>topAggId = ''\<close>, and reading \<^verbatim>\<open>quotes[''].destinationToken\<close> throws.
\<close>

lemma getBestQuoteAndEthValues_none_positive:
  assumes "\<forall>q \<in> set (map snd qs). ethValueOfTrade env p q \<le> 0"
    and "map_of qs [] = None"
  shows "getBestQuoteAndEthValues env qs (Some p) = Inl TypeError"
proof -
  from assms(1)
  have "\<forall>q \<in> set (map snd qs). ethValueOfTrade env p q \<le> cur_ethTradeValueOfBestQuote bestInit"
    by (simp add: bestInit_def)
  from forEachQuote_none_better [OF this]
  have "cur_topAggId (forEachQuote env p bestInit (map snd qs)) = []"
    by (simp add: bestInit_def)
  with assms(2) show ?thesis
    by (simp add: getBestQuoteAndEthValues_def Let_def del: forEachQuote.simps)
qed

lemma daiToEthQuote_gas: "gasTotalInWeiHex 1000000000 daiToEthQuote = 21000000000000"
  by (simp add: daiToEthQuote_def gasTotalInWeiHex_def totalGasLimitForCalculation_def
      tradeGasLimitForCalculation_def)

lemma hexOfDecimalDigits_gas: "hexOfDecimalDigits 21000000000000 = 9288674231451648"
  by (simp add: hexOfDecimalDigits.simps [of "numeral k" for k])

lemma daiToEthQuote_value:
  "ethValueOfTrade (plainEnv median) 1000000000 daiToEthQuote = 1 - 9288674231451648"
proof -
  have "totalWeiCost (plainEnv median) 1000000000 daiToEthQuote = 9288674231451648"
    by (simp add: totalWeiCost_def daiToEthQuote_gas plainEnv_def hexOfDecimalDigits_gas)
      (simp add: daiToEthQuote_def)
  then show ?thesis
    by (simp add: ethValueOfTrade_def) (simp add: daiToEthQuote_def plainEnv_def)
qed

lemma plainEnv_getGasPrice: "getGasPrice (plainEnv median) = Inr 1000000000"
  by (simp add: plainEnv_def)

lemma daiToEthQuote_not_chosen:
  "cur_topAggId (forEachQuote (plainEnv median) 1000000000 bestInit [daiToEthQuote]) = []"
  by (simp add: forEachBody_def Let_def daiToEthQuote_value bestInit_def)

text \<open>
  C1. The claim: for every non-empty map of quotes, the \<^verbatim>\<open>topAggId\<close> returned names
  a quote of the map whose trade value is the greatest. On the map that holds the one
  quote \<open>daiToEthQuote\<close>, whose trade value is negative, nothing is returned: the
  call throws a \<^verbatim>\<open>TypeError\<close>.
\<close>

theorem findBestQuoteAndCalulateSavings_single_negative_quote:
  "findBestQuoteAndCalulateSavings (plainEnv median) [(''airswap'', daiToEthQuote)] None
     = Inl TypeError
   \<and> ethValueOfTrade (plainEnv median) 1000000000 daiToEthQuote < 0"
  by (simp add: findBestQuoteAndCalulateSavings_def getBestQuoteAndEthValues_def Let_def
      plainEnv_getGasPrice daiToEthQuote_not_chosen daiToEthQuote_value
      del: forEachQuote.simps)

section \<open>CurrencyRateController: what each piece changes\<close>

lemma poll_begin_frame:
  "store (poll_begin y) = store y" "now (poll_begin y) = now y"
  by (simp_all add: poll_begin_def)

lemma take_fetch_frame:
  "store (take_fetch i y) = store y" "now (take_fetch i y) = now y"
  by (simp_all add: take_fetch_def)

lemma start_frame:
  "now (start y) = now y"
  "store (start y) = pollingStarted (now y) (store y)"
  "fetches (start y) =
     fetches y @ [PollFetch (now y) (currentCurrency (store y)) (nativeCurrency (store y))]"
  "intervals (start y) = intervals y @ [(now y, now y + POLLING_INTERVAL)]"
  by (simp_all add: start_def Let_def poll_begin_def pollingStarted_def)

lemma poll_resume_frame:
  "now (poll_resume t r y) = now y"
  "pollingStartTime (store (poll_resume t r y)) = pollingStartTime (store y)"
  "updateStartTime (store (poll_resume t r y)) = updateStartTime (store y)"
  by (simp_all add: poll_resume_def pollFinished_def split: option.split)

lemma interval_callback_frame:
  "now (interval_callback i y) = now y"
  "store (interval_callback i y) = store y"
  by (simp_all add: interval_callback_def Let_def poll_begin_def)

lemma updateCurrencyFinished_frame:
  "pollingStartTime (updateCurrencyFinished d r s) = pollingStartTime s"
  "updateStartTime (updateCurrencyFinished d r s) = updateStartTime s"
  by (simp_all add: updateCurrencyFinished_def Let_def split: option.split)

text \<open>
  \<^verbatim>\<open>updateCurrencyFinished\<close> never touches the native currency, pending or active: its
  second branch is taken only if \<^verbatim>\<open>pendingCurrentCurrency\<close> is still true after the
  first branch, which sets it to \<^verbatim>\<open>null\<close>.
\<close>

lemma updateCurrencyFinished_native:
  "pendingNativeCurrency (updateCurrencyFinished d r s) = pendingNativeCurrency s"
  "nativeCurrency (updateCurrencyFinished d r s) = nativeCurrency s"
  by (simp_all add: updateCurrencyFinished_def Let_def split: option.split)

lemma updateCurrencyStarted_frame:
  assumes "updateCurrencyStarted c n u s = Inr s'"
  shows "pollingStartTime s' = pollingStartTime s" "updateStartTime s' = Some u"
  using assms by (auto simp add: updateCurrencyStarted_def Let_def split: if_splits)

lemma updateCurrency_begin_frame:
  assumes "updateCurrency_begin c n y = Inr y'"
  shows "now y' = now y" "pollingStartTime (store y') = pollingStartTime (store y)"
    "updateStartTime (store y') = Some (now y)"
  using assms
  by (auto simp add: updateCurrency_begin_def dispatch_stop_def stop_def Let_def
      dest: updateCurrencyStarted_frame split: if_splits sum.splits)

lemma updateCurrency_resume_now:
  "now (snd (updateCurrency_resume u f y)) = now y"
  by (simp add: updateCurrency_resume_def Let_def start_frame split: sum.split)

lemma updateCurrency_resume_polling:
  "pollingStartTime (store (snd (updateCurrency_resume u f y))) = pollingStartTime (store y)
   \<or> pollingStartTime (store (snd (updateCurrency_resume u f y))) = Some (now y)"
  by (simp add: updateCurrency_resume_def Let_def start_frame pollingStarted_def split: sum.split)

lemma updateCurrency_resume_updateStart:
  "updateStartTime (store (snd (updateCurrency_resume u f y))) = updateStartTime (store y)"
  by (simp add: updateCurrency_resume_def Let_def start_frame pollingStarted_def
      updateCurrencyFinished_frame updateCurrencyFailed_def split: sum.split)

section \<open>CurrencyRateController: a restart of polling outlives every later event\<close>

lemma restartedAfter_start: "t < now y \<Longrightarrow> restartedAfter t (start y)"
  by (simp add: restartedAfter_def start_frame pollingStarted_def)

lemma restartedAfter_take_fetch:
  "restartedAfter t (take_fetch i y) = restartedAfter t y"
  by (simp add: restartedAfter_def take_fetch_frame)

lemma restartedAfter_poll_resume:
  "restartedAfter t (poll_resume t' r y) = restartedAfter t y"
  by (simp add: restartedAfter_def poll_resume_frame)

lemma restartedAfter_updateCurrency_resume:
  assumes "restartedAfter t y"
  shows "restartedAfter t (snd (updateCurrency_resume u f y))"
proof -
  from assms have lt: "t < now y"
    by (simp add: restartedAfter_def)
  from updateCurrency_resume_polling [of u f y] show ?thesis
  proof
    assume "pollingStartTime (store (snd (updateCurrency_resume u f y)))
      = pollingStartTime (store y)"
    with assms show ?thesis
      by (simp add: restartedAfter_def updateCurrency_resume_now)
  next
    assume "pollingStartTime (store (snd (updateCurrency_resume u f y))) = Some (now y)"
    with lt show ?thesis
      by (simp add: restartedAfter_def updateCurrency_resume_now)
  qed
qed

lemma restartedAfter_step:
  assumes "restartedAfter t y"
  shows "restartedAfter t (step e y)"
proof (cases e)
  case (Tick d)
  with assms show ?thesis by (simp add: restartedAfter_def)
next
  case CallStart
  with assms show ?thesis
    by (simp add: restartedAfter_def start_frame pollingStarted_def)
next
  case CallStop
  with assms show ?thesis by (simp add: stop_def)
next
  case (CallUpdateCurrency c n)
  with assms show ?thesis
    by (auto simp add: restartedAfter_def dest: updateCurrency_begin_frame split: sum.split)
next
  case (IntervalDue i)
  with assms show ?thesis
    by (simp add: restartedAfter_def interval_callback_frame)
next
  case (FetchResolved i r)
  with assms show ?thesis
    by (simp add: restartedAfter_take_fetch restartedAfter_poll_resume
        restartedAfter_updateCurrency_resume split: fetch.split)
next
  case (FetchRejected i m)
  with assms show ?thesis
    by (simp add: restartedAfter_take_fetch restartedAfter_updateCurrency_resume
        split: fetch.split)
qed

lemma restartedAfter_run: "restartedAfter t y \<Longrightarrow> restartedAfter t (run es y)"
  by (induction es arbitrary: y) (simp_all add: restartedAfter_step)

lemma restartedAfter_discards: "restartedAfter t y \<Longrightarrow> poll_resume t r y = y"
  by (simp add: restartedAfter_def poll_resume_def split: option.splits)

section \<open>CurrencyRateController: a newer update outlives every later event\<close>

lemma replacedAfter_take_fetch:
  "replacedAfter u (take_fetch i y) = replacedAfter u y"
  by (simp add: replacedAfter_def take_fetch_frame)

lemma replacedAfter_poll_resume:
  "replacedAfter u (poll_resume t r y) = replacedAfter u y"
  by (simp add: replacedAfter_def poll_resume_frame)

lemma replacedAfter_updateCurrency_resume:
  "replacedAfter v (snd (updateCurrency_resume u f y)) = replacedAfter v y"
  by (simp add: replacedAfter_def updateCurrency_resume_now updateCurrency_resume_updateStart)

lemma replacedAfter_step:
  assumes "replacedAfter u y"
  shows "replacedAfter u (step e y)"
proof (cases e)
  case (Tick d)
  with assms show ?thesis by (simp add: replacedAfter_def)
next
  case CallStart
  with assms show ?thesis
    by (simp add: replacedAfter_def start_frame pollingStarted_def)
next
  case CallStop
  with assms show ?thesis by (simp add: stop_def)
next
  case (CallUpdateCurrency c n)
  with assms show ?thesis
    by (auto simp add: replacedAfter_def dest: updateCurrency_begin_frame split: sum.split)
next
  case (IntervalDue i)
  with assms show ?thesis
    by (simp add: replacedAfter_def interval_callback_frame)
next
  case (FetchResolved i r)
  with assms show ?thesis
    by (simp add: replacedAfter_updateCurrency_resume replacedAfter_take_fetch
        replacedAfter_poll_resume split: fetch.split)
next
  case (FetchRejected i m)
  with assms show ?thesis
    by (simp add: replacedAfter_updateCurrency_resume replacedAfter_take_fetch
        split: fetch.split)
qed

lemma replacedAfter_run: "replacedAfter u y \<Longrightarrow> replacedAfter u (run es y)"
  by (induction es arbitrary: y) (simp_all add: replacedAfter_step)

lemma replacedAfter_discards:
  "replacedAfter u y \<Longrightarrow> updateCurrency_resume u (Inr r) y = (None, y)"
  by (auto simp add: replacedAfter_def updateCurrency_resume_def Let_def split: option.splits)

section \<open>CurrencyRateController: evaluation of sample runs\<close>

lemmas sys_defs = boot_def initialState_def start_def poll_begin_def poll_resume_def
  pollingStarted_def pollFinished_def interval_callback_def take_fetch_def stop_def
  POLLING_INTERVAL_def

lemma run_overlapping:
  "run overlapping (boot False) =
     \<lparr>store = initialState\<lparr>pollingStartTime := Some 0\<rparr>, now = 180000,
      fetches = [PollFetch 0 ''usd'' ''ETH'', PollFetch 180000 ''usd'' ''ETH''],
      intervals = [(0, 360000)], strictDispatch = False\<rparr>"
  by (simp add: sys_defs overlapping_def Let_def)

lemma run_append: "run (es @ es') y = run es' (run es y)"
  by (induction es arbitrary: y) simp_all

lemmas update_defs = updateCurrency_begin_def dispatch_stop_def stop_def
  updateCurrencyStarted_def getPendingOrActiveCurrentCurrency_def
  getPendingOrActiveNativeCurrency_def

lemma eurUpdating_eval:
  "eurUpdating =
     \<lparr>store = initialState\<lparr>pendingCurrentCurrency := Some ''eur'', updateStartTime := Some 0\<rparr>,
      now = 5, fetches = [UpdateFetch 0 ''eur'' ''ETH''], intervals = [],
      strictDispatch = False\<rparr>"
  by (simp add: eurUpdating_def update_defs boot_def initialState_def)

lemma gbpUpdating_eval:
  "gbpUpdating =
     \<lparr>store = initialState\<lparr>pendingCurrentCurrency := Some ''gbp'', updateStartTime := Some 5\<rparr>,
      now = 5, fetches = [UpdateFetch 0 ''eur'' ''ETH'', UpdateFetch 5 ''gbp'' ''ETH''],
      intervals = [], strictDispatch = False\<rparr>"
  by (simp add: gbpUpdating_def eurUpdating_eval update_defs initialState_def)


section \<open>CurrencyRateController: the claims\<close>

text \<open>
  C2, as claimed: of two overlapping poll fetches of one polling session, the one that
  started earlier never stores its result once the later one has stored its own. It does:
  with both fetches of \<open>overlapping\<close> in flight, the later one resolves and stores the
  rate 2; a second later, in the same session, the earlier one resolves and the rate is 1.
\<close>

theorem earlier_fetch_overwrites_later_fetch:
  "fetches (run overlapping (boot False))
     = [PollFetch 0 ''usd'' ''ETH'', PollFetch 180000 ''usd'' ''ETH'']
   \<and> conversionRate (store (run (overlapping @ [FetchResolved 1 2]) (boot False))) = 2
   \<and> pollingStartTime
        (store (run (overlapping @ [FetchResolved 1 2, Tick 1000, FetchResolved 0 1])
           (boot False))) = Some 0
   \<and> conversionRate
        (store (run (overlapping @ [FetchResolved 1 2, Tick 1000, FetchResolved 0 1])
           (boot False))) = 1"
  by (simp add: run_append run_overlapping) (simp add: sys_defs)

text \<open>
  C2, amended: of two overlapping poll fetches of which the later one was begun by a
  restart of polling, at a clock reading greater than the start time \<open>t1\<close> of the
  earlier one, the earlier fetch never stores its result after the later one has
  resolved, whatever happens before (\<open>es1\<close>) and in between (\<open>es2\<close>): resuming it
  leaves the whole system as it is.
\<close>

theorem fetch_of_earlier_session_never_overwrites:
  assumes "t1 < now y"
  shows "poll_resume t1 r1 (run es2 (poll_resume (now y) r2 (run es1 (start y))))
         = run es2 (poll_resume (now y) r2 (run es1 (start y)))"
  using assms
  by (simp add: restartedAfter_discards restartedAfter_run restartedAfter_start
      restartedAfter_poll_resume)

text \<open>
  C2, the amended claim at work: polling starts at time 0 and again at time 5; the fetch
  of the second session stores the rate 2, and the fetch of the first session, resolving
  later with the rate 1, changes nothing.
\<close>

theorem fetch_of_earlier_session_never_overwrites_witness:
  "0 < now (run [CallStart, Tick 5] (boot False))
   \<and> poll_resume 0 1
       (run [Tick 1] (poll_resume (now (run [CallStart, Tick 5] (boot False))) 2
          (run [] (start (run [CallStart, Tick 5] (boot False))))))
     = run [Tick 1] (poll_resume (now (run [CallStart, Tick 5] (boot False))) 2
          (run [] (start (run [CallStart, Tick 5] (boot False)))))
   \<and> conversionRate (store (run [Tick 1] (poll_resume 5 2
          (start (run [CallStart, Tick 5] (boot False)))))) = 2"
proof -
  have "0 < now (run [CallStart, Tick 5] (boot False))"
    by (simp add: start_frame boot_def)
  from fetch_of_earlier_session_never_overwrites [OF this, of 1 "[Tick 1]" 2 "[]"]
  show ?thesis
    by (simp add: sys_defs)
qed

text \<open>
  C3, as claimed: after \<^verbatim>\<open>updateCurrencyFinished\<close> both pending fields are
  \<^verbatim>\<open>null\<close>. The store in which an update of the native currency to BTC has started
  (\<open>btcPending\<close>) still has \<^verbatim>\<open>pendingNativeCurrency = 'BTC'\<close> after the update has
  finished, and its native currency is still ETH.
\<close>

theorem updateCurrencyFinished_keeps_pendingNativeCurrency:
  "updateCurrencyStarted None (Some ''BTC'') 5 initialState = Inr btcPending
   \<and> pendingNativeCurrency (updateCurrencyFinished 9 2 btcPending) = Some ''BTC''
   \<and> nativeCurrency (updateCurrencyFinished 9 2 btcPending) = ''ETH''"
  by (simp add: updateCurrencyStarted_def updateCurrencyFinished_def btcPending_def
      initialState_def)

text \<open>
  C4, as claimed: the result of a poll fetch is discarded if a newer poll has started
  after it. In \<open>overlapping\<close> a second poll has started at time 180000, after the first
  (of time 0); the first one resolving with the rate 5 has its result stored all the same.
\<close>

theorem poll_result_stored_despite_newer_poll:
  "fetches (run overlapping (boot False))
     = [PollFetch 0 ''usd'' ''ETH'', PollFetch 180000 ''usd'' ''ETH'']
   \<and> conversionRate (store (run overlapping (boot False))) = 0
   \<and> store (run (overlapping @ [FetchResolved 0 5]) (boot False))
     = pollFinished 180000 5 (store (run overlapping (boot False)))
   \<and> conversionRate (store (run (overlapping @ [FetchResolved 0 5]) (boot False))) = 5"
  by (simp add: run_append run_overlapping) (simp add: sys_defs)

text \<open>
  C4, amended: the result of a poll fetch that started at time \<open>t\<close> is discarded if
  polling has been started anew after it, at a clock reading greater than \<open>t\<close>:
  whatever events \<open>es\<close> follow the restart, resuming the fetch leaves the system as it
  is, so \<^verbatim>\<open>pollFinished\<close> is not dispatched for it.
\<close>

theorem poll_result_discarded_after_restart:
  assumes "t < now y"
  shows "poll_resume t r (run es (start y)) = run es (start y)"
  using assms
  by (simp add: restartedAfter_discards restartedAfter_run restartedAfter_start)

text \<open>
  C4, the amended claim at work: the fetch of time 0 is in flight when polling is
  started again at time 5; two poll fetches and a tick later its result 7 is dropped.
\<close>

theorem poll_result_discarded_after_restart_witness:
  "0 < now (run [CallStart, Tick 5] (boot False))
   \<and> poll_resume 0 7 (run [Tick 3] (start (run [CallStart, Tick 5] (boot False))))
     = run [Tick 3] (start (run [CallStart, Tick 5] (boot False)))
   \<and> fetches (run [Tick 3] (start (run [CallStart, Tick 5] (boot False))))
     = [PollFetch 0 ''usd'' ''ETH'', PollFetch 5 ''usd'' ''ETH'']"
proof -
  have "0 < now (run [CallStart, Tick 5] (boot False))"
    by (simp add: start_frame boot_def)
  from poll_result_discarded_after_restart [OF this, of 7 "[Tick 3]"]
  show ?thesis
    by (simp add: sys_defs)
qed

text \<open>
  C5. When the fetch of an update throws, whether or not a newer update has started:
  the error is thrown on to the caller; \<^verbatim>\<open>updateCurrencyFailed\<close> is dispatched, so
  both pending fields end as \<^verbatim>\<open>null\<close>; and \<^verbatim>\<open>start\<close> is dispatched, so polling
  is started at the current time, with a poll fetch in flight and an interval set.
\<close>

theorem updateCurrency_fetch_throws:
  "fst (updateCurrency_resume u (Inl e) y) = Some e
   \<and> snd (updateCurrency_resume u (Inl e) y) = start (y\<lparr>store := updateCurrencyFailed (store y)\<rparr>)
   \<and> pendingCurrentCurrency (store (snd (updateCurrency_resume u (Inl e) y))) = None
   \<and> pendingNativeCurrency (store (snd (updateCurrency_resume u (Inl e) y))) = None
   \<and> pollingStartTime (store (snd (updateCurrency_resume u (Inl e) y))) = Some (now y)
   \<and> fetches (snd (updateCurrency_resume u (Inl e) y))
     = fetches y @ [PollFetch (now y) (currentCurrency (store y)) (nativeCurrency (store y))]
   \<and> intervals (snd (updateCurrency_resume u (Inl e) y))
     = intervals y @ [(now y, now y + POLLING_INTERVAL)]"
  by (simp add: updateCurrency_resume_def start_frame pollingStarted_def
      updateCurrencyFailed_def)

text \<open>
  C6, as claimed: once \<^verbatim>\<open>stop()\<close> has been called, \<^verbatim>\<open>pollingStartTime\<close> is
  cleared, no poll fetch in flight stores its result and the interval ends. Calling
  \<^verbatim>\<open>stop\<close> after \<^verbatim>\<open>start\<close>, or dispatching what it returns, changes nothing:
  \<^verbatim>\<open>pollingStartTime\<close> is still 0, the fetch in flight stores its rate, and the
  interval, when due, is kept and polls again.
\<close>

theorem stop_does_not_stop_polling:
  "stop (run [CallStart] (boot False)) = run [CallStart] (boot False)
   \<and> dispatch_stop (run [CallStart] (boot False)) = Inr (run [CallStart] (boot False))
   \<and> pollingStartTime (store (run [CallStart, CallStop] (boot False))) = Some 0
   \<and> conversionRate
        (store (run [CallStart, CallStop, Tick 10, FetchResolved 0 (3 / 2)] (boot False)))
      = 3 / 2
   \<and> intervals (run [CallStart, CallStop, Tick 180000, IntervalDue 0] (boot False))
      = [(0, 360000)]
   \<and> fetches (run [CallStart, CallStop, Tick 180000, IntervalDue 0] (boot False))
      = [PollFetch 0 ''usd'' ''ETH'', PollFetch 180000 ''usd'' ''ETH'']"
  by (simp add: sys_defs dispatch_stop_def)

text \<open>
  An update that started at time \<open>u1\<close> is in flight, and a second update starts at a
  later reading of the clock. Whatever events \<open>es\<close> follow, when the fetch of the first
  update resolves nothing is dispatched for it and nothing is thrown: the system, and
  with it the rate and the currencies of the store, stays as it is.
\<close>

lemma update_discarded_after_later_start:
  assumes "u1 < now y"
    and "updateCurrency_begin c n y = Inr y2"
  shows "updateCurrency_resume u1 (Inr r) (run es y2) = (None, run es y2)"
proof -
  from assms(2) have "now y2 = now y" and "updateStartTime (store y2) = Some (now y)"
    by (rule updateCurrency_begin_frame)+
  with assms(1) have "replacedAfter u1 y2"
    by (simp add: replacedAfter_def)
  then show ?thesis
    by (simp add: replacedAfter_discards replacedAfter_run)
qed

text \<open>
  So it is when an update to EUR starts at time 0 and one to GBP at time 5: the EUR
  fetch resolves a tick later with the rate 3 and is dropped.
\<close>

lemma update_discarded_after_later_start_example:
  "0 < now eurUpdating
   \<and> updateCurrency_begin (Some ''gbp'') None eurUpdating = Inr gbpUpdating
   \<and> updateCurrency_resume 0 (Inr 3) (run [Tick 1] gbpUpdating) = (None, run [Tick 1] gbpUpdating)
   \<and> conversionRate (store (run [Tick 1] gbpUpdating)) = 0
   \<and> currentCurrency (store (run [Tick 1] gbpUpdating)) = ''usd''"
proof -
  have begun: "updateCurrency_begin (Some ''gbp'') None eurUpdating = Inr gbpUpdating"
    by (simp add: gbpUpdating_def eurUpdating_eval update_defs)
  have "0 < now eurUpdating"
    by (simp add: eurUpdating_eval)
  from update_discarded_after_later_start [OF this begun, of 3 "[Tick 1]"] begun
  show ?thesis
    by (simp add: gbpUpdating_eval eurUpdating_eval initialState_def)
qed


end
